theory Spec2Isabelle
  imports Main
begin

section \<open>Poco::Data::Binding (Data/include/Poco/Data/Binding.h)\<close>

text \<open>
  The header defines the class template \<open>Binding<T>\<close> and its specialisations for
  \<open>const char*\<close>, \<open>std::vector<T>\<close>, \<open>std::vector<bool>\<close>, \<open>std::list<T>\<close>,
  \<open>std::deque<T>\<close>, \<open>std::set<T>\<close>, \<open>std::multiset<T>\<close>, \<open>std::map<K, V>\<close> and
  \<open>std::multimap<K, V>\<close>. Each class is embedded as a record of its data members and
  one function per member function. A member function that mutates the object takes the
  object and returns the updated one; a \<open>throw\<close> is the left injection of a sum.
\<close>

subsection \<open>What the header includes\<close>

datatype Direction = PD_IN | PD_OUT | PD_IN_OUT

text \<open>
  The exceptions the header can raise. \<open>AssertionViolationException\<close> is what a failed
  \<open>poco_assert_dbg\<close> raises in a build with \<open>_DEBUG\<close>. \<open>UndefinedBehaviour\<close> is not an
  exception: it marks the executions that C++ leaves undefined (dereferencing the end
  iterator, calling through a null Binder pointer); nothing is claimed about what follows.
\<close>

datatype exn =
    BindingException string
  | NullPointerException
  | AssertionViolationException
  | UndefinedBehaviour

text \<open>
  Caller-owned storage. A C++ reference or pointer is an address; the caller's objects
  live in a heap that maps every address to the object stored there. The caller may
  change the heap between two calls of a member function.
\<close>

type_synonym addr = nat
type_synonym 'c heap = "addr \<Rightarrow> 'c"

text \<open>
  Modelled from the spec: the Binder (\<open>AbstractBinder\<close>, declared in a header that is not
  part of the sources) "accepts a positioned, typed value and a direction, and can be
  reset between executions". Its state is the sequence of bind calls it has received, in
  order, and the number of resets.
\<close>

record 'v AbstractBinder =
  received :: "(nat \<times> 'v \<times> Direction) list"
  resets :: nat

definition AbstractBinder_bind ::
  "nat \<Rightarrow> 'v \<Rightarrow> Direction \<Rightarrow> 'v AbstractBinder \<Rightarrow> 'v AbstractBinder" where
  "AbstractBinder_bind pos v dir bd = bd\<lparr>received := received bd @ [(pos, v, dir)]\<rparr>"

definition AbstractBinder_reset :: "'v AbstractBinder \<Rightarrow> 'v AbstractBinder" where
  "AbstractBinder_reset bd = bd\<lparr>resets := Suc (resets bd)\<rparr>"

text \<open>
  Modelled from the spec: the Type Mapper (\<open>TypeHandler<T>\<close>, TypeHandler.h is not part
  of the sources) "performs the actual typed bind" against the Binder: it is given the
  position, the value, the Binder pointer the Binding holds and the direction, and passes
  them on to the Binder; through a null pointer the call is undefined. \<open>TypeHandler<T>::size()\<close>,
  the number of columns of one value of type \<open>T\<close>, is a parameter of the functions that
  use it.
\<close>

definition TypeHandler_bind ::
  "nat \<Rightarrow> 'v \<Rightarrow> 'v AbstractBinder option \<Rightarrow> Direction \<Rightarrow> exn + 'v AbstractBinder option" where
  "TypeHandler_bind pos v pB dir =
     (case pB of
        None \<Rightarrow> Inl UndefinedBehaviour
      | Some bd \<Rightarrow> Inr (Some (AbstractBinder_bind pos v dir bd)))"

text \<open>
  Modelled from the spec: the base class \<open>AbstractBinding\<close> (AbstractBinding.h is not part
  of the sources) holds the name, the direction "fixed at construction, immutable
  thereafter" and the Binder "assigned by the consumer before first use, not owned by the
  adapter". \<open>pBinder\<close> is the pointer \<open>getBinder()\<close> returns: \<open>None\<close> is the null pointer,
  \<open>Some bd\<close> points to a Binder whose state is \<open>bd\<close>.
\<close>

record 'v AbstractBinding =
  name :: string
  direction :: Direction
  pBinder :: "'v AbstractBinder option"

definition setBinder ::
  "'v AbstractBinder option \<Rightarrow> ('v, 'z) AbstractBinding_scheme \<Rightarrow> ('v, 'z) AbstractBinding_scheme" where
  "setBinder pB b = b\<lparr>pBinder := pB\<rparr>"

text \<open>
  \<open>poco_assert_dbg(cond)\<close> (Bugcheck.h is not part of the sources) checks \<open>cond\<close> only
  in a build with \<open>_DEBUG\<close>; \<open>dbg\<close> says whether the build is one. \<open>poco_check_ptr\<close> checks
  in every build and raises \<open>NullPointerException\<close>.
\<close>

definition poco_assert_dbg_fails :: "bool \<Rightarrow> bool \<Rightarrow> bool" where
  "poco_assert_dbg_fails dbg cond = (dbg \<and> \<not> cond)"

text \<open>
  The members \<open>_pVal\<close> and \<open>_val\<close> of every class but the two specialisations without a
  \<open>copy\<close> choice: \<open>_pVal(copy ? new T(val) : 0), _val(copy ? *_pVal : val)\<close>. With
  \<open>copy\<close> the Binding owns a copy and \<open>_val\<close> refers to it (\<open>Copy c\<close>); without,
  \<open>_pVal\<close> is null and \<open>_val\<close> refers to the caller's object (\<open>Ref a\<close>).
\<close>

datatype 'c storage = Copy 'c | Ref addr

fun deref :: "'c heap \<Rightarrow> 'c storage \<Rightarrow> 'c" where
  "deref h (Copy c) = c"
| "deref h (Ref a) = h a"

definition make_storage :: "'c heap \<Rightarrow> addr \<Rightarrow> bool \<Rightarrow> 'c storage" where
  "make_storage h a copy = (if copy then Copy (h a) else Ref a)"

text \<open>
  The consumer's row loop: \<open>n\<close> successive calls of a member function that may throw,
  stopping at the first exception.
\<close>

fun call_n :: "('s \<Rightarrow> exn + 's) \<Rightarrow> nat \<Rightarrow> 's \<Rightarrow> exn + 's" where
  "call_n f 0 s = Inr s"
| "call_n f (Suc n) s = (case f s of Inl e \<Rightarrow> Inl e | Inr s' \<Rightarrow> call_n f n s')"

subsection \<open>\<open>Binding<T>\<close>: one value\<close>

record 'v Binding = "'v AbstractBinding" +
  val :: "'v storage"
  bound :: bool

definition Binding_ctor :: "'v heap \<Rightarrow> addr \<Rightarrow> string \<Rightarrow> Direction \<Rightarrow> bool \<Rightarrow> 'v Binding" where
  "Binding_ctor h a nm dir copy =
     \<lparr>name = nm, direction = dir, pBinder = None,
      val = make_storage h a copy, bound = False\<rparr>"

definition Binding_numOfColumnsHandled :: "nat \<Rightarrow> 'v Binding \<Rightarrow> nat" where
  "Binding_numOfColumnsHandled TypeHandler_size b = TypeHandler_size"




text \<open>
  \<open>reset\<close> clears \<open>_bound\<close> before \<open>poco_check_ptr\<close> can throw, so the object is
  returned in both cases, together with the exception if there is one.
\<close>

definition Binding_reset :: "'v Binding \<Rightarrow> exn option \<times> 'v Binding" where
  "Binding_reset b =
     (let b1 = b\<lparr>bound := False\<rparr> in
      case pBinder b1 of
        None \<Rightarrow> (Some NullPointerException, b1)
      | Some bd \<Rightarrow> (None, b1\<lparr>pBinder := Some (AbstractBinder_reset bd)\<rparr>))"

subsection \<open>\<open>Binding<const char*>\<close>\<close>

text \<open>
  \<open>pVal\<close> is the pointer argument: \<open>None\<close> is the null pointer, \<open>Some a\<close> points to the
  characters \<open>mem a\<close>. The member \<open>_val\<close> is a \<open>std::string\<close>: the characters themselves.
\<close>

record CharPtrBinding = "string AbstractBinding" +
  cval :: string
  cbound :: bool

definition CharPtrBinding_ctor ::
  "string heap \<Rightarrow> addr option \<Rightarrow> string \<Rightarrow> Direction \<Rightarrow> bool \<Rightarrow> exn + CharPtrBinding" where
  "CharPtrBinding_ctor mem pVal nm dir copy =
     (case pVal of
        None \<Rightarrow> Inl NullPointerException
      | Some a \<Rightarrow>
          Inr \<lparr>name = nm, direction = dir, pBinder = None, cval = mem a, cbound = False\<rparr>)"

definition CharPtrBinding_numOfColumnsHandled :: "CharPtrBinding \<Rightarrow> nat" where
  "CharPtrBinding_numOfColumnsHandled b = 1"

definition CharPtrBinding_numOfRowsHandled :: "CharPtrBinding \<Rightarrow> nat" where
  "CharPtrBinding_numOfRowsHandled b = 1"

definition CharPtrBinding_canBind :: "CharPtrBinding \<Rightarrow> bool" where
  "CharPtrBinding_canBind b = (\<not> cbound b)"

definition CharPtrBinding_bind :: "bool \<Rightarrow> nat \<Rightarrow> CharPtrBinding \<Rightarrow> exn + CharPtrBinding" where
  "CharPtrBinding_bind dbg pos b =
     (if poco_assert_dbg_fails dbg (pBinder b \<noteq> None) then Inl AssertionViolationException
      else case TypeHandler_bind pos (cval b) (pBinder b) (direction b) of
             Inl e \<Rightarrow> Inl e
           | Inr pB \<Rightarrow> Inr (b\<lparr>pBinder := pB, cbound := True\<rparr>))"

definition CharPtrBinding_reset :: "CharPtrBinding \<Rightarrow> exn option \<times> CharPtrBinding" where
  "CharPtrBinding_reset b =
     (let b1 = b\<lparr>cbound := False\<rparr> in
      case pBinder b1 of
        None \<Rightarrow> (Some NullPointerException, b1)
      | Some bd \<Rightarrow> (None, b1\<lparr>pBinder := Some (AbstractBinder_reset bd)\<rparr>))"

subsection \<open>\<open>Binding<std::vector<T>>\<close>, and \<open>list\<close>, \<open>deque\<close>, \<open>set\<close>, \<open>multiset\<close>\<close>

text \<open>
  The five classes have the same members and the same member functions, token for token,
  but for the container type. A container value is the sequence of elements its
  \<open>const_iterator\<close> visits from \<open>begin()\<close> to \<open>end()\<close>, and \<open>size()\<close> is the length of
  that sequence (a \<open>set\<close> or \<open>multiset\<close> visits its elements in ascending order). An
  iterator is the position it points to: \<open>begin()\<close> is position 0, \<open>end()\<close> the length at
  the time of the call, \<open>++\<close> the successor, and \<open>*\<close> reads the element at the position;
  at a position that is not one of an element the read is undefined. (When the caller
  changes a collection bound by reference, C++ may invalidate the iterators; the
  properties below about a Binding by reference keep the caller's heap as it is from
  construction on.)
\<close>

record 'a VectorBinding = "'a AbstractBinding" +
  vval :: "'a list storage"
  vbegin :: nat
  vend :: nat

definition VectorBinding_numOfColumnsHandled :: "nat \<Rightarrow> 'a VectorBinding \<Rightarrow> nat" where
  "VectorBinding_numOfColumnsHandled TypeHandler_size b = TypeHandler_size"

definition VectorBinding_numOfRowsHandled :: "'a list heap \<Rightarrow> 'a VectorBinding \<Rightarrow> nat" where
  "VectorBinding_numOfRowsHandled h b = length (deref h (vval b))"

definition VectorBinding_ctor ::
  "'a list heap \<Rightarrow> addr \<Rightarrow> string \<Rightarrow> Direction \<Rightarrow> bool \<Rightarrow> exn + 'a VectorBinding" where
  "VectorBinding_ctor h a nm dir copy =
     (let b = \<lparr>name = nm, direction = dir, pBinder = None,
               vval = make_storage h a copy, vbegin = 0, vend = length (h a)\<rparr>
      in if PD_IN = dir \<and> VectorBinding_numOfRowsHandled h b = 0
         then Inl (BindingException ''It is illegal to bind to an empty data collection'')
         else Inr b)"

definition VectorBinding_canBind :: "'a VectorBinding \<Rightarrow> bool" where
  "VectorBinding_canBind b = (vbegin b \<noteq> vend b)"

definition VectorBinding_bind ::
  "bool \<Rightarrow> 'a list heap \<Rightarrow> nat \<Rightarrow> 'a VectorBinding \<Rightarrow> exn + 'a VectorBinding" where
  "VectorBinding_bind dbg h pos b =
     (if poco_assert_dbg_fails dbg (pBinder b \<noteq> None) then Inl AssertionViolationException
      else if poco_assert_dbg_fails dbg (VectorBinding_canBind b)
        then Inl AssertionViolationException
      else if length (deref h (vval b)) \<le> vbegin b then Inl UndefinedBehaviour
      else case TypeHandler_bind pos (deref h (vval b) ! vbegin b) (pBinder b) (direction b) of
             Inl e \<Rightarrow> Inl e
           | Inr pB \<Rightarrow> Inr (b\<lparr>pBinder := pB, vbegin := Suc (vbegin b)\<rparr>))"

definition VectorBinding_reset :: "'a list heap \<Rightarrow> 'a VectorBinding \<Rightarrow> 'a VectorBinding" where
  "VectorBinding_reset h b = b\<lparr>vbegin := 0, vend := length (deref h (vval b))\<rparr>"

subsection \<open>\<open>Binding<std::vector<bool>>\<close>\<close>

text \<open>
  \<open>_val\<close> is a reference to the caller's vector, with no copy choice; \<open>_deq\<close> is a
  \<open>std::deque<bool>\<close> the constructor fills from it, and the iterators run over \<open>_deq\<close>.
\<close>

record BoolVectorBinding = "bool AbstractBinding" +
  bval :: addr
  deq :: "bool list"
  bbegin :: nat
  bend :: nat

definition BoolVectorBinding_numOfColumnsHandled :: "BoolVectorBinding \<Rightarrow> nat" where
  "BoolVectorBinding_numOfColumnsHandled b = 1"

definition BoolVectorBinding_numOfRowsHandled :: "bool list heap \<Rightarrow> BoolVectorBinding \<Rightarrow> nat" where
  "BoolVectorBinding_numOfRowsHandled h b = length (h (bval b))"

definition BoolVectorBinding_ctor ::
  "bool list heap \<Rightarrow> addr \<Rightarrow> string \<Rightarrow> Direction \<Rightarrow> exn + BoolVectorBinding" where
  "BoolVectorBinding_ctor h a nm dir =
     (let b = \<lparr>name = nm, direction = dir, pBinder = None,
               bval = a, deq = h a, bbegin = 0, bend = length (h a)\<rparr>
      in if PD_IN \<noteq> dir
         then Inl (BindingException ''Only IN direction is legal for std:vector<bool> binding.'')
         else if BoolVectorBinding_numOfRowsHandled h b = 0
         then Inl (BindingException ''It is illegal to bind to an empty data collection'')
         else Inr b)"

definition BoolVectorBinding_canBind :: "BoolVectorBinding \<Rightarrow> bool" where
  "BoolVectorBinding_canBind b = (bbegin b \<noteq> bend b)"

definition BoolVectorBinding_bind ::
  "bool \<Rightarrow> nat \<Rightarrow> BoolVectorBinding \<Rightarrow> exn + BoolVectorBinding" where
  "BoolVectorBinding_bind dbg pos b =
     (if poco_assert_dbg_fails dbg (pBinder b \<noteq> None) then Inl AssertionViolationException
      else if poco_assert_dbg_fails dbg (BoolVectorBinding_canBind b)
        then Inl AssertionViolationException
      else if length (deq b) \<le> bbegin b then Inl UndefinedBehaviour
      else case TypeHandler_bind pos (deq b ! bbegin b) (pBinder b) (direction b) of
             Inl e \<Rightarrow> Inl e
           | Inr pB \<Rightarrow> Inr (b\<lparr>pBinder := pB, bbegin := Suc (bbegin b)\<rparr>))"

definition BoolVectorBinding_reset :: "BoolVectorBinding \<Rightarrow> BoolVectorBinding" where
  "BoolVectorBinding_reset b = b\<lparr>bbegin := 0, bend := length (deq b)\<rparr>"

subsection \<open>\<open>Binding<std::map<K, V>>\<close> and \<open>Binding<std::multimap<K, V>>\<close>\<close>

text \<open>
  The two classes have the same members and member functions but for the container type.
  A map value is the sequence of (key, mapped value) entries its \<open>const_iterator\<close> visits
  from \<open>begin()\<close> to \<open>end()\<close>, which is in ascending key order. \<open>_begin->second\<close> is the
  second component of the entry at the position. The Binder is one for values of the
  mapped type \<open>V\<close>: the class uses \<open>TypeHandler<V>\<close> only.
\<close>

record ('k, 'v) MapBinding = "'v AbstractBinding" +
  mval :: "('k \<times> 'v) list storage"
  mbegin :: nat
  mend :: nat

definition MapBinding_numOfColumnsHandled :: "nat \<Rightarrow> ('k, 'v) MapBinding \<Rightarrow> nat" where
  "MapBinding_numOfColumnsHandled TypeHandler_V_size b = TypeHandler_V_size"

definition MapBinding_numOfRowsHandled ::
  "('k \<times> 'v) list heap \<Rightarrow> ('k, 'v) MapBinding \<Rightarrow> nat" where
  "MapBinding_numOfRowsHandled h b = length (deref h (mval b))"

definition MapBinding_ctor ::
  "('k \<times> 'v) list heap \<Rightarrow> addr \<Rightarrow> string \<Rightarrow> Direction \<Rightarrow> bool \<Rightarrow> exn + ('k, 'v) MapBinding" where
  "MapBinding_ctor h a nm dir copy =
     (let b = \<lparr>name = nm, direction = dir, pBinder = None,
               mval = make_storage h a copy, mbegin = 0, mend = length (h a)\<rparr>
      in if PD_IN = dir \<and> MapBinding_numOfRowsHandled h b = 0
         then Inl (BindingException ''It is illegal to bind to an empty data collection'')
         else Inr b)"

definition MapBinding_canBind :: "('k, 'v) MapBinding \<Rightarrow> bool" where
  "MapBinding_canBind b = (mbegin b \<noteq> mend b)"

definition MapBinding_bind ::
  "bool \<Rightarrow> ('k \<times> 'v) list heap \<Rightarrow> nat \<Rightarrow> ('k, 'v) MapBinding \<Rightarrow> exn + ('k, 'v) MapBinding" where
  "MapBinding_bind dbg h pos b =
     (if poco_assert_dbg_fails dbg (pBinder b \<noteq> None) then Inl AssertionViolationException
      else if poco_assert_dbg_fails dbg (MapBinding_canBind b)
        then Inl AssertionViolationException
      else if length (deref h (mval b)) \<le> mbegin b then Inl UndefinedBehaviour
      else case TypeHandler_bind pos (snd (deref h (mval b) ! mbegin b)) (pBinder b) (direction b) of
             Inl e \<Rightarrow> Inl e
           | Inr pB \<Rightarrow> Inr (b\<lparr>pBinder := pB, mbegin := Suc (mbegin b)\<rparr>))"

definition MapBinding_reset ::
  "('k \<times> 'v) list heap \<Rightarrow> ('k, 'v) MapBinding \<Rightarrow> ('k, 'v) MapBinding" where
  "MapBinding_reset h b = b\<lparr>mbegin := 0, mend := length (deref h (mval b))\<rparr>"


subsection \<open>The caller and the consumer\<close>

text \<open>
  What can happen to a \<open>Binding<std::vector<bool>>\<close> after its construction: the
  consumer calls \<open>bind(pos)\<close> or \<open>reset()\<close>, or the caller assigns new contents to the
  vector the Binding was constructed from. A run stops at the first exception.
\<close>

datatype BoolVector_event = Consumer_bind nat | Consumer_reset | Caller_assigns "bool list"

fun is_Consumer :: "BoolVector_event \<Rightarrow> bool" where
  "is_Consumer (Caller_assigns xs) = False"
| "is_Consumer e = True"

fun BoolVector_run ::
  "bool \<Rightarrow> BoolVector_event list \<Rightarrow> bool list heap \<times> BoolVectorBinding
    \<Rightarrow> exn + bool list heap \<times> BoolVectorBinding" where
  "BoolVector_run dbg [] w = Inr w"
| "BoolVector_run dbg (Consumer_bind pos # es) (h, b) =
     (case BoolVectorBinding_bind dbg pos b of
        Inl e \<Rightarrow> Inl e
      | Inr b' \<Rightarrow> BoolVector_run dbg es (h, b'))"
| "BoolVector_run dbg (Consumer_reset # es) (h, b) =
     BoolVector_run dbg es (h, BoolVectorBinding_reset b)"
| "BoolVector_run dbg (Caller_assigns xs # es) (h, b) =
     BoolVector_run dbg es (h(bval b := xs), b)"

subsection \<open>Concrete callers\<close>

text \<open>Heaps of a caller whose every object is the same value, and a Binder not yet used.\<close>

definition three_rows :: "int list heap" where
  "three_rows = (\<lambda>a. [10, 20, 30])"

definition no_rows :: "int list heap" where
  "no_rows = (\<lambda>a. [])"

definition two_entries :: "(string \<times> int) list heap" where
  "two_entries = (\<lambda>a. [(''k1'', 7), (''k2'', 5)])"

definition no_entries :: "(string \<times> int) list heap" where
  "no_entries = (\<lambda>a. [])"

definition two_flags :: "bool list heap" where
  "two_flags = (\<lambda>a. [True, False])"

definition no_flags :: "bool list heap" where
  "no_flags = (\<lambda>a. [])"

definition one_int :: "int heap" where
  "one_int = (\<lambda>a. 42)"

definition some_chars :: "string heap" where
  "some_chars = (\<lambda>a. ''abc'')"

definition new_binder :: "'v AbstractBinder" where
  "new_binder = \<lparr>received = [], resets = 0\<rparr>"

section \<open>Properties\<close>

subsection \<open>One bind call, and \<open>k\<close> of them\<close>

lemma VectorBinding_bind_step:
  assumes "pBinder b = Some bd" and "vbegin b < length (deref h (vval b))"
    and "vend b = length (deref h (vval b))"
  shows "VectorBinding_bind dbg h pos b =
    Inr (b\<lparr>pBinder := Some (bd\<lparr>received := received bd @ [(pos, deref h (vval b) ! vbegin b, direction b)]\<rparr>),
          vbegin := Suc (vbegin b)\<rparr>)"
  using assms
  by (simp add: VectorBinding_bind_def poco_assert_dbg_fails_def VectorBinding_canBind_def
      TypeHandler_bind_def AbstractBinder_bind_def)

lemma VectorBinding_bind_n:
  assumes "pBinder b = Some bd" and "vbegin b + k \<le> length (deref h (vval b))"
    and "vend b = length (deref h (vval b))"
  shows "call_n (VectorBinding_bind dbg h pos) k b =
    Inr (b\<lparr>pBinder := Some (bd\<lparr>received := received bd @
              map (\<lambda>x. (pos, x, direction b)) (take k (drop (vbegin b) (deref h (vval b))))\<rparr>),
          vbegin := vbegin b + k\<rparr>)"
  using assms
proof (induction k arbitrary: b bd)
  case 0
  then show ?case by simp
next
  case (Suc k)
  let ?xs = "deref h (vval b)"
  let ?bd1 = "bd\<lparr>received := received bd @ [(pos, ?xs ! vbegin b, direction b)]\<rparr>"
  let ?b1 = "b\<lparr>pBinder := Some ?bd1, vbegin := Suc (vbegin b)\<rparr>"
  from Suc.prems have lt: "vbegin b < length ?xs" by simp
  have step: "VectorBinding_bind dbg h pos b = Inr ?b1"
    using Suc.prems(1) lt Suc.prems(3) by (rule VectorBinding_bind_step)
  have rest: "call_n (VectorBinding_bind dbg h pos) k ?b1 =
      Inr (?b1\<lparr>pBinder := Some (?bd1\<lparr>received := received ?bd1 @
              map (\<lambda>x. (pos, x, direction ?b1)) (take k (drop (vbegin ?b1) (deref h (vval ?b1))))\<rparr>),
          vbegin := vbegin ?b1 + k\<rparr>)"
    by (rule Suc.IH) (use Suc.prems in simp_all)
  have split: "take (Suc k) (drop (vbegin b) ?xs) = ?xs ! vbegin b # take k (drop (Suc (vbegin b)) ?xs)"
    using lt by (simp add: Cons_nth_drop_Suc [symmetric])
  show ?case
    by (simp add: step rest split)
qed

lemma MapBinding_bind_step:
  assumes "pBinder b = Some bd" and "mbegin b < length (deref h (mval b))"
    and "mend b = length (deref h (mval b))"
  shows "MapBinding_bind dbg h pos b =
    Inr (b\<lparr>pBinder := Some (bd\<lparr>received := received bd @ [(pos, snd (deref h (mval b) ! mbegin b), direction b)]\<rparr>),
          mbegin := Suc (mbegin b)\<rparr>)"
  using assms
  by (simp add: MapBinding_bind_def poco_assert_dbg_fails_def MapBinding_canBind_def
      TypeHandler_bind_def AbstractBinder_bind_def)

lemma MapBinding_bind_n:
  assumes "pBinder b = Some bd" and "mbegin b + k \<le> length (deref h (mval b))"
    and "mend b = length (deref h (mval b))"
  shows "call_n (MapBinding_bind dbg h pos) k b =
    Inr (b\<lparr>pBinder := Some (bd\<lparr>received := received bd @
              map (\<lambda>e. (pos, snd e, direction b)) (take k (drop (mbegin b) (deref h (mval b))))\<rparr>),
          mbegin := mbegin b + k\<rparr>)"
  using assms
proof (induction k arbitrary: b bd)
  case 0
  then show ?case by simp
next
  case (Suc k)
  let ?es = "deref h (mval b)"
  let ?bd1 = "bd\<lparr>received := received bd @ [(pos, snd (?es ! mbegin b), direction b)]\<rparr>"
  let ?b1 = "b\<lparr>pBinder := Some ?bd1, mbegin := Suc (mbegin b)\<rparr>"
  from Suc.prems have lt: "mbegin b < length ?es" by simp
  have step: "MapBinding_bind dbg h pos b = Inr ?b1"
    using Suc.prems(1) lt Suc.prems(3) by (rule MapBinding_bind_step)
  have rest: "call_n (MapBinding_bind dbg h pos) k ?b1 =
      Inr (?b1\<lparr>pBinder := Some (?bd1\<lparr>received := received ?bd1 @
              map (\<lambda>e. (pos, snd e, direction ?b1)) (take k (drop (mbegin ?b1) (deref h (mval ?b1))))\<rparr>),
          mbegin := mbegin ?b1 + k\<rparr>)"
    by (rule Suc.IH) (use Suc.prems in simp_all)
  have split: "take (Suc k) (drop (mbegin b) ?es) = ?es ! mbegin b # take k (drop (Suc (mbegin b)) ?es)"
    using lt by (simp add: Cons_nth_drop_Suc [symmetric])
  show ?case
    by (simp add: step rest split)
qed

lemma BoolVectorBinding_bind_step:
  assumes "pBinder b = Some bd" and "bbegin b < length (deq b)" and "bend b = length (deq b)"
  shows "BoolVectorBinding_bind dbg pos b =
    Inr (b\<lparr>pBinder := Some (bd\<lparr>received := received bd @ [(pos, deq b ! bbegin b, direction b)]\<rparr>),
          bbegin := Suc (bbegin b)\<rparr>)"
  using assms
  by (simp add: BoolVectorBinding_bind_def poco_assert_dbg_fails_def BoolVectorBinding_canBind_def
      TypeHandler_bind_def AbstractBinder_bind_def)

lemma BoolVectorBinding_bind_n:
  assumes "pBinder b = Some bd" and "bbegin b + k \<le> length (deq b)" and "bend b = length (deq b)"
  shows "call_n (BoolVectorBinding_bind dbg pos) k b =
    Inr (b\<lparr>pBinder := Some (bd\<lparr>received := received bd @
              map (\<lambda>x. (pos, x, direction b)) (take k (drop (bbegin b) (deq b)))\<rparr>),
          bbegin := bbegin b + k\<rparr>)"
  using assms
proof (induction k arbitrary: b bd)
  case 0
  then show ?case by simp
next
  case (Suc k)
  let ?bd1 = "bd\<lparr>received := received bd @ [(pos, deq b ! bbegin b, direction b)]\<rparr>"
  let ?b1 = "b\<lparr>pBinder := Some ?bd1, bbegin := Suc (bbegin b)\<rparr>"
  from Suc.prems have lt: "bbegin b < length (deq b)" by simp
  have step: "BoolVectorBinding_bind dbg pos b = Inr ?b1"
    using Suc.prems(1) lt Suc.prems(3) by (rule BoolVectorBinding_bind_step)
  have rest: "call_n (BoolVectorBinding_bind dbg pos) k ?b1 =
      Inr (?b1\<lparr>pBinder := Some (?bd1\<lparr>received := received ?bd1 @
              map (\<lambda>x. (pos, x, direction ?b1)) (take k (drop (bbegin ?b1) (deq ?b1)))\<rparr>),
          bbegin := bbegin ?b1 + k\<rparr>)"
    by (rule Suc.IH) (use Suc.prems in simp_all)
  have split: "take (Suc k) (drop (bbegin b) (deq b)) = deq b ! bbegin b # take k (drop (Suc (bbegin b)) (deq b))"
    using lt by (simp add: Cons_nth_drop_Suc [symmetric])
  show ?case
    by (simp add: step rest split)
qed

lemma deref_make_storage: "deref h (make_storage h a copy) = h a"
  by (simp add: make_storage_def)

lemma VectorBinding_ctor_accepts:
  assumes "dir \<noteq> PD_IN \<or> h a \<noteq> []"
  shows "VectorBinding_ctor h a nm dir copy =
    Inr \<lparr>name = nm, direction = dir, pBinder = None,
         vval = make_storage h a copy, vbegin = 0, vend = length (h a)\<rparr>"
  using assms
  by (auto simp: VectorBinding_ctor_def VectorBinding_numOfRowsHandled_def deref_make_storage Let_def)

lemma MapBinding_ctor_accepts:
  assumes "dir \<noteq> PD_IN \<or> h a \<noteq> []"
  shows "MapBinding_ctor h a nm dir copy =
    Inr \<lparr>name = nm, direction = dir, pBinder = None,
         mval = make_storage h a copy, mbegin = 0, mend = length (h a)\<rparr>"
  using assms
  by (auto simp: MapBinding_ctor_def MapBinding_numOfRowsHandled_def deref_make_storage Let_def)

lemma BoolVectorBinding_ctor_accepts:
  assumes "h a \<noteq> []"
  shows "BoolVectorBinding_ctor h a nm PD_IN =
    Inr \<lparr>name = nm, direction = PD_IN, pBinder = None,
         bval = a, deq = h a, bbegin = 0, bend = length (h a)\<rparr>"
  using assms
  by (simp add: BoolVectorBinding_ctor_def BoolVectorBinding_numOfRowsHandled_def Let_def)

text \<open>
  From construction: the first \<open>k\<close> bind calls on a new Binding with a Binder attached
  deliver the first \<open>k\<close> rows, and \<open>canBind\<close> holds until all rows are delivered.
\<close>

lemma VectorBinding_drain:
  assumes "dir \<noteq> PD_IN \<or> h a \<noteq> []" and "k \<le> length (h a)"
  shows "\<exists>b b'. VectorBinding_ctor h a nm dir copy = Inr b
      \<and> VectorBinding_numOfRowsHandled h b = length (h a)
      \<and> VectorBinding_canBind b = (h a \<noteq> [])
      \<and> call_n (VectorBinding_bind dbg h pos) k (setBinder (Some bd) b) = Inr b'
      \<and> pBinder b' = Some (bd\<lparr>received := received bd @ map (\<lambda>x. (pos, x, dir)) (take k (h a))\<rparr>)
      \<and> VectorBinding_canBind b' = (k < length (h a))"
proof -
  let ?b = "\<lparr>name = nm, direction = dir, pBinder = None,
         vval = make_storage h a copy, vbegin = 0, vend = length (h a)\<rparr>"
  let ?bb = "\<lparr>name = nm, direction = dir, pBinder = Some bd,
         vval = make_storage h a copy, vbegin = 0, vend = length (h a)\<rparr>"
  have c: "VectorBinding_ctor h a nm dir copy = Inr ?b"
    using assms(1) by (rule VectorBinding_ctor_accepts)
  have s: "setBinder (Some bd) ?b = ?bb"
    by (simp add: setBinder_def)
  have n: "call_n (VectorBinding_bind dbg h pos) k ?bb =
    Inr (?bb\<lparr>pBinder := Some (bd\<lparr>received := received bd @
              map (\<lambda>x. (pos, x, dir)) (take k (h a))\<rparr>), vbegin := k\<rparr>)"
    using VectorBinding_bind_n [of ?bb bd k h dbg pos] assms(2)
    by (simp add: deref_make_storage)
  show ?thesis
    using assms(2)
    by (auto simp: c s n VectorBinding_numOfRowsHandled_def VectorBinding_canBind_def
        deref_make_storage)
qed


lemma MapBinding_drain:
  assumes "dir \<noteq> PD_IN \<or> h a \<noteq> []" and "k \<le> length (h a)"
  shows "\<exists>b b'. MapBinding_ctor h a nm dir copy = Inr b
      \<and> MapBinding_numOfRowsHandled h b = length (h a)
      \<and> MapBinding_canBind b = (h a \<noteq> [])
      \<and> call_n (MapBinding_bind dbg h pos) k (setBinder (Some bd) b) = Inr b'
      \<and> pBinder b' = Some (bd\<lparr>received := received bd @ map (\<lambda>e. (pos, snd e, dir)) (take k (h a))\<rparr>)
      \<and> MapBinding_canBind b' = (k < length (h a))"
proof -
  let ?b = "\<lparr>name = nm, direction = dir, pBinder = None,
         mval = make_storage h a copy, mbegin = 0, mend = length (h a)\<rparr>"
  let ?bb = "\<lparr>name = nm, direction = dir, pBinder = Some bd,
         mval = make_storage h a copy, mbegin = 0, mend = length (h a)\<rparr>"
  have c: "MapBinding_ctor h a nm dir copy = Inr ?b"
    using assms(1) by (rule MapBinding_ctor_accepts)
  have s: "setBinder (Some bd) ?b = ?bb"
    by (simp add: setBinder_def)
  have n: "call_n (MapBinding_bind dbg h pos) k ?bb =
    Inr (?bb\<lparr>pBinder := Some (bd\<lparr>received := received bd @
              map (\<lambda>e. (pos, snd e, dir)) (take k (h a))\<rparr>), mbegin := k\<rparr>)"
    using MapBinding_bind_n [of ?bb bd k h dbg pos] assms(2)
    by (simp add: deref_make_storage)
  show ?thesis
    using assms(2)
    by (auto simp: c s n MapBinding_numOfRowsHandled_def MapBinding_canBind_def
        deref_make_storage)
qed

lemma BoolVectorBinding_drain:
  assumes "h a \<noteq> []" and "k \<le> length (h a)"
  shows "\<exists>b b'. BoolVectorBinding_ctor h a nm PD_IN = Inr b
      \<and> BoolVectorBinding_numOfRowsHandled h b = length (h a)
      \<and> BoolVectorBinding_canBind b
      \<and> call_n (BoolVectorBinding_bind dbg pos) k (setBinder (Some bd) b) = Inr b'
      \<and> pBinder b' = Some (bd\<lparr>received := received bd @ map (\<lambda>x. (pos, x, PD_IN)) (take k (h a))\<rparr>)
      \<and> BoolVectorBinding_canBind b' = (k < length (h a))"
proof -
  let ?b = "\<lparr>name = nm, direction = PD_IN, pBinder = None,
         bval = a, deq = h a, bbegin = 0, bend = length (h a)\<rparr>"
  let ?bb = "\<lparr>name = nm, direction = PD_IN, pBinder = Some bd,
         bval = a, deq = h a, bbegin = 0, bend = length (h a)\<rparr>"
  have c: "BoolVectorBinding_ctor h a nm PD_IN = Inr ?b"
    using assms(1) by (rule BoolVectorBinding_ctor_accepts)
  have s: "setBinder (Some bd) ?b = ?bb"
    by (simp add: setBinder_def)
  have n: "call_n (BoolVectorBinding_bind dbg pos) k ?bb =
    Inr (?bb\<lparr>pBinder := Some (bd\<lparr>received := received bd @
              map (\<lambda>x. (pos, x, PD_IN)) (take k (h a))\<rparr>), bbegin := k\<rparr>)"
    using BoolVectorBinding_bind_n [of ?bb bd k dbg pos] assms(2)
    by simp
  show ?thesis
    using assms
    by (auto simp: c s n BoolVectorBinding_numOfRowsHandled_def BoolVectorBinding_canBind_def)
qed

text \<open>
  A full drain, \<open>reset()\<close>, and a second full drain of a new Binding over a non-empty
  collection, each of \<open>numOfRowsHandled()\<close> bind calls.
\<close>

lemma VectorBinding_redrain:
  assumes "h a \<noteq> []"
  shows "\<exists>b b1 b2. VectorBinding_ctor h a nm dir copy = Inr b
     \<and> call_n (VectorBinding_bind dbg h pos) (VectorBinding_numOfRowsHandled h b)
          (setBinder (Some bd) b) = Inr b1
     \<and> \<not> VectorBinding_canBind b1
     \<and> pBinder b1 = Some (bd\<lparr>received := received bd @ map (\<lambda>x. (pos, x, dir)) (h a)\<rparr>)
     \<and> VectorBinding_canBind (VectorBinding_reset h b1)
     \<and> call_n (VectorBinding_bind dbg h pos)
          (VectorBinding_numOfRowsHandled h (VectorBinding_reset h b1))
          (VectorBinding_reset h b1) = Inr b2
     \<and> \<not> VectorBinding_canBind b2
     \<and> pBinder b2 = Some (bd\<lparr>received := received bd @ map (\<lambda>x. (pos, x, dir)) (h a)
                                  @ map (\<lambda>x. (pos, x, dir)) (h a)\<rparr>)"
proof -
  let ?n = "length (h a)"
  let ?rows = "map (\<lambda>x. (pos, x, dir)) (h a)"
  let ?b = "\<lparr>name = nm, direction = dir, pBinder = None,
         vval = make_storage h a copy, vbegin = 0, vend = ?n\<rparr>"
  let ?bb = "\<lparr>name = nm, direction = dir, pBinder = Some bd,
         vval = make_storage h a copy, vbegin = 0, vend = ?n\<rparr>"
  let ?d1 = "bd\<lparr>received := received bd @ ?rows\<rparr>"
  let ?b1 = "\<lparr>name = nm, direction = dir, pBinder = Some ?d1,
         vval = make_storage h a copy, vbegin = ?n, vend = ?n\<rparr>"
  let ?r = "\<lparr>name = nm, direction = dir, pBinder = Some ?d1,
         vval = make_storage h a copy, vbegin = 0, vend = ?n\<rparr>"
  let ?b2 = "\<lparr>name = nm, direction = dir, pBinder = Some (bd\<lparr>received := received bd @ ?rows @ ?rows\<rparr>),
         vval = make_storage h a copy, vbegin = ?n, vend = ?n\<rparr>"
  have c: "VectorBinding_ctor h a nm dir copy = Inr ?b"
    using assms by (simp add: VectorBinding_ctor_accepts)
  have s: "setBinder (Some bd) ?b = ?bb"
    by (simp add: setBinder_def)
  have rows: "VectorBinding_numOfRowsHandled h ?b = ?n" "VectorBinding_numOfRowsHandled h ?r = ?n"
    by (simp_all add: VectorBinding_numOfRowsHandled_def deref_make_storage)
  have d1: "call_n (VectorBinding_bind dbg h pos) ?n ?bb = Inr ?b1"
    using VectorBinding_bind_n [of ?bb bd ?n h dbg pos]
    by (simp add: deref_make_storage)
  have r: "VectorBinding_reset h ?b1 = ?r"
    by (simp add: VectorBinding_reset_def deref_make_storage)
  have d2: "call_n (VectorBinding_bind dbg h pos) ?n ?r = Inr ?b2"
    using VectorBinding_bind_n [of ?r ?d1 ?n h dbg pos]
    by (simp add: deref_make_storage)
  show ?thesis
    using assms
    by (simp add: c s rows d1 r d2 VectorBinding_canBind_def)
qed

lemma MapBinding_redrain:
  assumes "h a \<noteq> []"
  shows "\<exists>b b1 b2. MapBinding_ctor h a nm dir copy = Inr b
     \<and> call_n (MapBinding_bind dbg h pos) (MapBinding_numOfRowsHandled h b)
          (setBinder (Some bd) b) = Inr b1
     \<and> \<not> MapBinding_canBind b1
     \<and> pBinder b1 = Some (bd\<lparr>received := received bd @ map (\<lambda>e. (pos, snd e, dir)) (h a)\<rparr>)
     \<and> MapBinding_canBind (MapBinding_reset h b1)
     \<and> call_n (MapBinding_bind dbg h pos)
          (MapBinding_numOfRowsHandled h (MapBinding_reset h b1))
          (MapBinding_reset h b1) = Inr b2
     \<and> \<not> MapBinding_canBind b2
     \<and> pBinder b2 = Some (bd\<lparr>received := received bd @ map (\<lambda>e. (pos, snd e, dir)) (h a)
                                  @ map (\<lambda>e. (pos, snd e, dir)) (h a)\<rparr>)"
proof -
  let ?n = "length (h a)"
  let ?rows = "map (\<lambda>e. (pos, snd e, dir)) (h a)"
  let ?b = "\<lparr>name = nm, direction = dir, pBinder = None,
         mval = make_storage h a copy, mbegin = 0, mend = ?n\<rparr>"
  let ?bb = "\<lparr>name = nm, direction = dir, pBinder = Some bd,
         mval = make_storage h a copy, mbegin = 0, mend = ?n\<rparr>"
  let ?d1 = "bd\<lparr>received := received bd @ ?rows\<rparr>"
  let ?b1 = "\<lparr>name = nm, direction = dir, pBinder = Some ?d1,
         mval = make_storage h a copy, mbegin = ?n, mend = ?n\<rparr>"
  let ?r = "\<lparr>name = nm, direction = dir, pBinder = Some ?d1,
         mval = make_storage h a copy, mbegin = 0, mend = ?n\<rparr>"
  let ?b2 = "\<lparr>name = nm, direction = dir, pBinder = Some (bd\<lparr>received := received bd @ ?rows @ ?rows\<rparr>),
         mval = make_storage h a copy, mbegin = ?n, mend = ?n\<rparr>"
  have c: "MapBinding_ctor h a nm dir copy = Inr ?b"
    using assms by (simp add: MapBinding_ctor_accepts)
  have s: "setBinder (Some bd) ?b = ?bb"
    by (simp add: setBinder_def)
  have rows: "MapBinding_numOfRowsHandled h ?b = ?n" "MapBinding_numOfRowsHandled h ?r = ?n"
    by (simp_all add: MapBinding_numOfRowsHandled_def deref_make_storage)
  have d1: "call_n (MapBinding_bind dbg h pos) ?n ?bb = Inr ?b1"
    using MapBinding_bind_n [of ?bb bd ?n h dbg pos]
    by (simp add: deref_make_storage)
  have r: "MapBinding_reset h ?b1 = ?r"
    by (simp add: MapBinding_reset_def deref_make_storage)
  have d2: "call_n (MapBinding_bind dbg h pos) ?n ?r = Inr ?b2"
    using MapBinding_bind_n [of ?r ?d1 ?n h dbg pos]
    by (simp add: deref_make_storage)
  show ?thesis
    using assms
    by (simp add: c s rows d1 r d2 MapBinding_canBind_def)
qed

lemma BoolVectorBinding_redrain:
  assumes "h a \<noteq> []"
  shows "\<exists>b b1 b2. BoolVectorBinding_ctor h a nm PD_IN = Inr b
     \<and> call_n (BoolVectorBinding_bind dbg pos) (BoolVectorBinding_numOfRowsHandled h b)
          (setBinder (Some bd) b) = Inr b1
     \<and> \<not> BoolVectorBinding_canBind b1
     \<and> pBinder b1 = Some (bd\<lparr>received := received bd @ map (\<lambda>x. (pos, x, PD_IN)) (h a)\<rparr>)
     \<and> BoolVectorBinding_canBind (BoolVectorBinding_reset b1)
     \<and> call_n (BoolVectorBinding_bind dbg pos)
          (BoolVectorBinding_numOfRowsHandled h (BoolVectorBinding_reset b1))
          (BoolVectorBinding_reset b1) = Inr b2
     \<and> \<not> BoolVectorBinding_canBind b2
     \<and> pBinder b2 = Some (bd\<lparr>received := received bd @ map (\<lambda>x. (pos, x, PD_IN)) (h a)
                                  @ map (\<lambda>x. (pos, x, PD_IN)) (h a)\<rparr>)"
proof -
  let ?n = "length (h a)"
  let ?rows = "map (\<lambda>x. (pos, x, PD_IN)) (h a)"
  let ?b = "\<lparr>name = nm, direction = PD_IN, pBinder = None,
         bval = a, deq = h a, bbegin = 0, bend = ?n\<rparr>"
  let ?bb = "\<lparr>name = nm, direction = PD_IN, pBinder = Some bd,
         bval = a, deq = h a, bbegin = 0, bend = ?n\<rparr>"
  let ?d1 = "bd\<lparr>received := received bd @ ?rows\<rparr>"
  let ?b1 = "\<lparr>name = nm, direction = PD_IN, pBinder = Some ?d1,
         bval = a, deq = h a, bbegin = ?n, bend = ?n\<rparr>"
  let ?r = "\<lparr>name = nm, direction = PD_IN, pBinder = Some ?d1,
         bval = a, deq = h a, bbegin = 0, bend = ?n\<rparr>"
  let ?b2 = "\<lparr>name = nm, direction = PD_IN, pBinder = Some (bd\<lparr>received := received bd @ ?rows @ ?rows\<rparr>),
         bval = a, deq = h a, bbegin = ?n, bend = ?n\<rparr>"
  have c: "BoolVectorBinding_ctor h a nm PD_IN = Inr ?b"
    using assms by (simp add: BoolVectorBinding_ctor_accepts)
  have s: "setBinder (Some bd) ?b = ?bb"
    by (simp add: setBinder_def)
  have rows: "BoolVectorBinding_numOfRowsHandled h ?b = ?n" "BoolVectorBinding_numOfRowsHandled h ?r = ?n"
    by (simp_all add: BoolVectorBinding_numOfRowsHandled_def)
  have d1: "call_n (BoolVectorBinding_bind dbg pos) ?n ?bb = Inr ?b1"
    using BoolVectorBinding_bind_n [of ?bb bd ?n dbg pos]
    by simp
  have r: "BoolVectorBinding_reset ?b1 = ?r"
    by (simp add: BoolVectorBinding_reset_def)
  have d2: "call_n (BoolVectorBinding_bind dbg pos) ?n ?r = Inr ?b2"
    using BoolVectorBinding_bind_n [of ?r ?d1 ?n dbg pos]
    by simp
  show ?thesis
    using assms
    by (simp add: c s rows d1 r d2 BoolVectorBinding_canBind_def)
qed


subsection \<open>Construction over an empty collection\<close>

text \<open>
  Claim C1, as the code has it. The constructors of the seven container classes reject an
  empty collection with a \<open>BindingException\<close> when the direction is IN, and only then:
  the check is \<open>PD_IN == direction && numOfRowsHandled() == 0\<close>. With OUT or IN_OUT
  the construction succeeds, with both iterators at the end and no Binder attached. The
  specialisation for a vector of bool stands apart: over an empty vector its constructor
  raises a \<open>BindingException\<close> for every direction.
\<close>

theorem empty_collection_rejected_for_IN_only:
  fixes h :: "'a list heap" and hm :: "('k \<times> 'v) list heap"
  assumes "h a = []" and "hm am = []" and "dir = PD_OUT \<or> dir = PD_IN_OUT"
    and "hb ab = []"
  shows "VectorBinding_ctor h a nm PD_IN copy =
        Inl (BindingException ''It is illegal to bind to an empty data collection'')
    \<and> MapBinding_ctor hm am nm PD_IN copy =
        Inl (BindingException ''It is illegal to bind to an empty data collection'')
    \<and> VectorBinding_ctor h a nm dir copy =
        Inr \<lparr>name = nm, direction = dir, pBinder = None,
             vval = make_storage h a copy, vbegin = 0, vend = 0\<rparr>
    \<and> MapBinding_ctor hm am nm dir copy =
        Inr \<lparr>name = nm, direction = dir, pBinder = None,
             mval = make_storage hm am copy, mbegin = 0, mend = 0\<rparr>
    \<and> BoolVectorBinding_ctor hb ab nm bdir =
        Inl (BindingException
              (if bdir = PD_IN then ''It is illegal to bind to an empty data collection''
               else ''Only IN direction is legal for std:vector<bool> binding.''))"
proof -
  have ne: "dir \<noteq> PD_IN" using assms(3) by auto
  have bv: "BoolVectorBinding_ctor hb ab nm bdir =
        Inl (BindingException
              (if bdir = PD_IN then ''It is illegal to bind to an empty data collection''
               else ''Only IN direction is legal for std:vector<bool> binding.''))"
    using assms(4)
    by (simp add: BoolVectorBinding_ctor_def BoolVectorBinding_numOfRowsHandled_def)
  have v: "VectorBinding_ctor h a nm PD_IN copy =
        Inl (BindingException ''It is illegal to bind to an empty data collection'')"
    using assms(1)
    by (simp add: VectorBinding_ctor_def VectorBinding_numOfRowsHandled_def deref_make_storage)
  have m: "MapBinding_ctor hm am nm PD_IN copy =
        Inl (BindingException ''It is illegal to bind to an empty data collection'')"
    using assms(2)
    by (simp add: MapBinding_ctor_def MapBinding_numOfRowsHandled_def deref_make_storage)
  have v': "VectorBinding_ctor h a nm dir copy =
        Inr \<lparr>name = nm, direction = dir, pBinder = None,
             vval = make_storage h a copy, vbegin = 0, vend = 0\<rparr>"
    using VectorBinding_ctor_accepts [of dir h a nm copy] ne assms(1) by simp
  have m': "MapBinding_ctor hm am nm dir copy =
        Inr \<lparr>name = nm, direction = dir, pBinder = None,
             mval = make_storage hm am copy, mbegin = 0, mend = 0\<rparr>"
    using MapBinding_ctor_accepts [of dir hm am nm copy] ne assms(2) by simp
  show ?thesis using v m v' m' bv by simp
qed

theorem empty_collection_rejected_for_IN_only_witness:
  "no_rows 0 = [] \<and> no_entries 0 = [] \<and> (PD_OUT = PD_OUT \<or> PD_OUT = PD_IN_OUT)
    \<and> no_flags 0 = []
    \<and> VectorBinding_ctor no_rows 0 ''p'' PD_IN True =
        Inl (BindingException ''It is illegal to bind to an empty data collection'')
    \<and> MapBinding_ctor no_entries 0 ''p'' PD_IN True =
        Inl (BindingException ''It is illegal to bind to an empty data collection'')
    \<and> VectorBinding_ctor no_rows 0 ''p'' PD_OUT True =
        Inr \<lparr>name = ''p'', direction = PD_OUT, pBinder = None,
             vval = Copy [], vbegin = 0, vend = 0\<rparr>
    \<and> MapBinding_ctor no_entries 0 ''p'' PD_OUT True =
        Inr \<lparr>name = ''p'', direction = PD_OUT, pBinder = None,
             mval = Copy [], mbegin = 0, mend = 0\<rparr>
    \<and> BoolVectorBinding_ctor no_flags 0 ''p'' PD_OUT =
        Inl (BindingException ''Only IN direction is legal for std:vector<bool> binding.'')"
proof -
  have h1: "no_rows 0 = []" by (simp add: no_rows_def)
  have h2: "no_entries 0 = []" by (simp add: no_entries_def)
  have h3: "PD_OUT = PD_OUT \<or> PD_OUT = PD_IN_OUT" by simp
  have h4: "no_flags 0 = []" by (simp add: no_flags_def)
  note inst = empty_collection_rejected_for_IN_only [where h = no_rows and a = 0
      and hm = no_entries and am = 0 and dir = PD_OUT and nm = "''p''" and copy = True
      and hb = no_flags and ab = 0 and bdir = PD_OUT, OF h1 h2 h3 h4]
  show ?thesis
    using inst h1 h2 h4 by (simp add: make_storage_def)
qed

text \<open>
  Claim C1 as stated fails for IN_OUT: an empty vector and an empty map are accepted. It
  fails for OUT and a vector of bool too: the empty vector is rejected.
\<close>

theorem empty_IN_OUT_collection_is_accepted:
  "VectorBinding_ctor no_rows 0 ''p'' PD_IN_OUT False =
     Inr \<lparr>name = ''p'', direction = PD_IN_OUT, pBinder = None,
          vval = Ref 0, vbegin = 0, vend = 0\<rparr>
   \<and> MapBinding_ctor no_entries 0 ''p'' PD_IN_OUT False =
     Inr \<lparr>name = ''p'', direction = PD_IN_OUT, pBinder = None,
          mval = Ref 0, mbegin = 0, mend = 0\<rparr>
   \<and> BoolVectorBinding_ctor no_flags 0 ''p'' PD_OUT =
     Inl (BindingException ''Only IN direction is legal for std:vector<bool> binding.'')"
  by (simp add: VectorBinding_ctor_def VectorBinding_numOfRowsHandled_def
      MapBinding_ctor_def MapBinding_numOfRowsHandled_def make_storage_def
      BoolVectorBinding_ctor_def no_rows_def no_entries_def no_flags_def)

subsection \<open>Draining a collection\<close>

text \<open>
  Claim C2. For every non-empty collection bound as IN (a vector, list, deque, set or
  multiset; a map or multimap; a vector of bool), construction succeeds,
  \<open>numOfRowsHandled()\<close> is the number of elements and \<open>canBind()\<close> is true; after
  \<open>k\<close> bind calls, \<open>k\<close> at most that number, the Binder has received exactly the first
  \<open>k\<close> elements in iteration order (for a map, their mapped values), and \<open>canBind()\<close> is
  true exactly as long as \<open>k\<close> is less than the number of elements. So that many calls,
  and no fewer, bring \<open>canBind()\<close> from true to false.
\<close>

theorem nonempty_IN_collection_drains_in_order:
  fixes h :: "'a list heap" and hm :: "('k \<times> 'v) list heap" and hb :: "bool list heap"
  assumes "h a \<noteq> []" and "k \<le> length (h a)"
    and "hm am \<noteq> []" and "km \<le> length (hm am)"
    and "hb ab \<noteq> []" and "kb \<le> length (hb ab)"
  shows "(\<exists>b b'. VectorBinding_ctor h a nm PD_IN copy = Inr b
      \<and> VectorBinding_numOfRowsHandled h b = length (h a)
      \<and> VectorBinding_canBind b
      \<and> call_n (VectorBinding_bind dbg h pos) k (setBinder (Some bd) b) = Inr b'
      \<and> pBinder b' = Some (bd\<lparr>received := received bd @ map (\<lambda>x. (pos, x, PD_IN)) (take k (h a))\<rparr>)
      \<and> VectorBinding_canBind b' = (k < length (h a)))
    \<and> (\<exists>b b'. MapBinding_ctor hm am nm PD_IN copy = Inr b
      \<and> MapBinding_numOfRowsHandled hm b = length (hm am)
      \<and> MapBinding_canBind b
      \<and> call_n (MapBinding_bind dbg hm pos) km (setBinder (Some md) b) = Inr b'
      \<and> pBinder b' = Some (md\<lparr>received := received md @ map (\<lambda>e. (pos, snd e, PD_IN)) (take km (hm am))\<rparr>)
      \<and> MapBinding_canBind b' = (km < length (hm am)))
    \<and> (\<exists>b b'. BoolVectorBinding_ctor hb ab nm PD_IN = Inr b
      \<and> BoolVectorBinding_numOfRowsHandled hb b = length (hb ab)
      \<and> BoolVectorBinding_canBind b
      \<and> call_n (BoolVectorBinding_bind dbg pos) kb (setBinder (Some dd) b) = Inr b'
      \<and> pBinder b' = Some (dd\<lparr>received := received dd @ map (\<lambda>x. (pos, x, PD_IN)) (take kb (hb ab))\<rparr>)
      \<and> BoolVectorBinding_canBind b' = (kb < length (hb ab)))"
proof (intro conjI)
  show "\<exists>b b'. VectorBinding_ctor h a nm PD_IN copy = Inr b
      \<and> VectorBinding_numOfRowsHandled h b = length (h a)
      \<and> VectorBinding_canBind b
      \<and> call_n (VectorBinding_bind dbg h pos) k (setBinder (Some bd) b) = Inr b'
      \<and> pBinder b' = Some (bd\<lparr>received := received bd @ map (\<lambda>x. (pos, x, PD_IN)) (take k (h a))\<rparr>)
      \<and> VectorBinding_canBind b' = (k < length (h a))"
    using VectorBinding_drain [of PD_IN h a k nm copy dbg pos bd] assms(1,2) by simp
  show "\<exists>b b'. MapBinding_ctor hm am nm PD_IN copy = Inr b
      \<and> MapBinding_numOfRowsHandled hm b = length (hm am)
      \<and> MapBinding_canBind b
      \<and> call_n (MapBinding_bind dbg hm pos) km (setBinder (Some md) b) = Inr b'
      \<and> pBinder b' = Some (md\<lparr>received := received md @ map (\<lambda>e. (pos, snd e, PD_IN)) (take km (hm am))\<rparr>)
      \<and> MapBinding_canBind b' = (km < length (hm am))"
    using MapBinding_drain [of PD_IN hm am km nm copy dbg pos md] assms(3,4) by simp
  show "\<exists>b b'. BoolVectorBinding_ctor hb ab nm PD_IN = Inr b
      \<and> BoolVectorBinding_numOfRowsHandled hb b = length (hb ab)
      \<and> BoolVectorBinding_canBind b
      \<and> call_n (BoolVectorBinding_bind dbg pos) kb (setBinder (Some dd) b) = Inr b'
      \<and> pBinder b' = Some (dd\<lparr>received := received dd @ map (\<lambda>x. (pos, x, PD_IN)) (take kb (hb ab))\<rparr>)
      \<and> BoolVectorBinding_canBind b' = (kb < length (hb ab))"
    using BoolVectorBinding_drain [of hb ab kb nm dbg pos dd] assms(5,6) by simp
qed


theorem nonempty_IN_collection_drains_in_order_witness:
  "three_rows 0 \<noteq> [] \<and> 3 \<le> length (three_rows 0)
   \<and> two_entries 0 \<noteq> [] \<and> 2 \<le> length (two_entries 0)
   \<and> two_flags 0 \<noteq> [] \<and> 2 \<le> length (two_flags 0)
   \<and> (\<exists>b b'. VectorBinding_ctor three_rows 0 ''p'' PD_IN False = Inr b
      \<and> VectorBinding_numOfRowsHandled three_rows b = 3
      \<and> VectorBinding_canBind b
      \<and> call_n (VectorBinding_bind True three_rows 0) 3 (setBinder (Some new_binder) b) = Inr b'
      \<and> pBinder b' = Some \<lparr>received = [(0, 10, PD_IN), (0, 20, PD_IN), (0, 30, PD_IN)], resets = 0\<rparr>
      \<and> \<not> VectorBinding_canBind b')
   \<and> (\<exists>b b'. MapBinding_ctor two_entries 0 ''p'' PD_IN False = Inr b
      \<and> MapBinding_numOfRowsHandled two_entries b = 2
      \<and> MapBinding_canBind b
      \<and> call_n (MapBinding_bind True two_entries 0) 2 (setBinder (Some new_binder) b) = Inr b'
      \<and> pBinder b' = Some \<lparr>received = [(0, 7, PD_IN), (0, 5, PD_IN)], resets = 0\<rparr>
      \<and> \<not> MapBinding_canBind b')
   \<and> (\<exists>b b'. BoolVectorBinding_ctor two_flags 0 ''p'' PD_IN = Inr b
      \<and> BoolVectorBinding_numOfRowsHandled two_flags b = 2
      \<and> BoolVectorBinding_canBind b
      \<and> call_n (BoolVectorBinding_bind True 0) 2 (setBinder (Some new_binder) b) = Inr b'
      \<and> pBinder b' = Some \<lparr>received = [(0, True, PD_IN), (0, False, PD_IN)], resets = 0\<rparr>
      \<and> \<not> BoolVectorBinding_canBind b')"
proof -
  have h1: "three_rows 0 \<noteq> []" and h2: "3 \<le> length (three_rows 0)"
    by (simp_all add: three_rows_def)
  have h3: "two_entries 0 \<noteq> []" and h4: "2 \<le> length (two_entries 0)"
    by (simp_all add: two_entries_def)
  have h5: "two_flags 0 \<noteq> []" and h6: "2 \<le> length (two_flags 0)"
    by (simp_all add: two_flags_def)
  note inst = nonempty_IN_collection_drains_in_order [where h = three_rows and a = 0
      and k = 3 and hm = two_entries and am = 0 and km = 2 and hb = two_flags and ab = 0
      and kb = 2 and nm = "''p''" and copy = False and dbg = True and pos = 0
      and bd = new_binder and md = new_binder and dd = new_binder, OF h1 h2 h3 h4 h5 h6]
  have c: "length (three_rows 0) = 3" "take 3 (three_rows 0) = [10, 20, 30]"
    "length (two_entries 0) = 2" "take 2 (two_entries 0) = [(''k1'', 7), (''k2'', 5)]"
    "length (two_flags 0) = 2" "take 2 (two_flags 0) = [True, False]"
    by (simp_all add: three_rows_def two_entries_def two_flags_def)
  show ?thesis
    using inst h1 h2 h3 h4 h5 h6 by (simp add: c new_binder_def)
qed

subsection \<open>Restart\<close>

text \<open>
  Claim C3, as the code has it. For a container Binding over a non-empty collection (any
  direction and either ownership; IN for a vector of bool), after a full drain
  \<open>canBind()\<close> is false, \<open>reset()\<close> makes it true again, and a second full drain
  delivers to the Binder the same rows in the same order as the first.
\<close>

theorem reset_restarts_nonempty_collection:
  fixes h :: "'a list heap" and hm :: "('k \<times> 'v) list heap" and hb :: "bool list heap"
  assumes "h a \<noteq> []" and "hm am \<noteq> []" and "hb ab \<noteq> []"
  shows "(\<exists>b b1 b2. VectorBinding_ctor h a nm dir copy = Inr b
     \<and> call_n (VectorBinding_bind dbg h pos) (VectorBinding_numOfRowsHandled h b)
          (setBinder (Some bd) b) = Inr b1
     \<and> \<not> VectorBinding_canBind b1
     \<and> pBinder b1 = Some (bd\<lparr>received := received bd @ map (\<lambda>x. (pos, x, dir)) (h a)\<rparr>)
     \<and> VectorBinding_canBind (VectorBinding_reset h b1)
     \<and> call_n (VectorBinding_bind dbg h pos)
          (VectorBinding_numOfRowsHandled h (VectorBinding_reset h b1))
          (VectorBinding_reset h b1) = Inr b2
     \<and> \<not> VectorBinding_canBind b2
     \<and> pBinder b2 = Some (bd\<lparr>received := received bd @ map (\<lambda>x. (pos, x, dir)) (h a)
                                  @ map (\<lambda>x. (pos, x, dir)) (h a)\<rparr>))
   \<and> (\<exists>b b1 b2. MapBinding_ctor hm am nm dir copy = Inr b
     \<and> call_n (MapBinding_bind dbg hm pos) (MapBinding_numOfRowsHandled hm b)
          (setBinder (Some md) b) = Inr b1
     \<and> \<not> MapBinding_canBind b1
     \<and> pBinder b1 = Some (md\<lparr>received := received md @ map (\<lambda>e. (pos, snd e, dir)) (hm am)\<rparr>)
     \<and> MapBinding_canBind (MapBinding_reset hm b1)
     \<and> call_n (MapBinding_bind dbg hm pos)
          (MapBinding_numOfRowsHandled hm (MapBinding_reset hm b1))
          (MapBinding_reset hm b1) = Inr b2
     \<and> \<not> MapBinding_canBind b2
     \<and> pBinder b2 = Some (md\<lparr>received := received md @ map (\<lambda>e. (pos, snd e, dir)) (hm am)
                                  @ map (\<lambda>e. (pos, snd e, dir)) (hm am)\<rparr>))
   \<and> (\<exists>b b1 b2. BoolVectorBinding_ctor hb ab nm PD_IN = Inr b
     \<and> call_n (BoolVectorBinding_bind dbg pos) (BoolVectorBinding_numOfRowsHandled hb b)
          (setBinder (Some dd) b) = Inr b1
     \<and> \<not> BoolVectorBinding_canBind b1
     \<and> pBinder b1 = Some (dd\<lparr>received := received dd @ map (\<lambda>x. (pos, x, PD_IN)) (hb ab)\<rparr>)
     \<and> BoolVectorBinding_canBind (BoolVectorBinding_reset b1)
     \<and> call_n (BoolVectorBinding_bind dbg pos)
          (BoolVectorBinding_numOfRowsHandled hb (BoolVectorBinding_reset b1))
          (BoolVectorBinding_reset b1) = Inr b2
     \<and> \<not> BoolVectorBinding_canBind b2
     \<and> pBinder b2 = Some (dd\<lparr>received := received dd @ map (\<lambda>x. (pos, x, PD_IN)) (hb ab)
                                  @ map (\<lambda>x. (pos, x, PD_IN)) (hb ab)\<rparr>))"
  by (intro conjI VectorBinding_redrain MapBinding_redrain BoolVectorBinding_redrain assms)

theorem reset_restarts_nonempty_collection_witness:
  "three_rows 0 \<noteq> [] \<and> two_entries 0 \<noteq> [] \<and> two_flags 0 \<noteq> []
   \<and> (\<exists>b b1 b2. VectorBinding_ctor three_rows 0 ''p'' PD_IN False = Inr b
     \<and> call_n (VectorBinding_bind True three_rows 0) (VectorBinding_numOfRowsHandled three_rows b)
          (setBinder (Some new_binder) b) = Inr b1
     \<and> \<not> VectorBinding_canBind b1
     \<and> pBinder b1 = Some \<lparr>received = [(0, 10, PD_IN), (0, 20, PD_IN), (0, 30, PD_IN)], resets = 0\<rparr>
     \<and> VectorBinding_canBind (VectorBinding_reset three_rows b1)
     \<and> call_n (VectorBinding_bind True three_rows 0)
          (VectorBinding_numOfRowsHandled three_rows (VectorBinding_reset three_rows b1))
          (VectorBinding_reset three_rows b1) = Inr b2
     \<and> \<not> VectorBinding_canBind b2
     \<and> pBinder b2 = Some \<lparr>received = [(0, 10, PD_IN), (0, 20, PD_IN), (0, 30, PD_IN),
                                        (0, 10, PD_IN), (0, 20, PD_IN), (0, 30, PD_IN)], resets = 0\<rparr>)
   \<and> (\<exists>b b1 b2. MapBinding_ctor two_entries 0 ''p'' PD_IN False = Inr b
     \<and> call_n (MapBinding_bind True two_entries 0) (MapBinding_numOfRowsHandled two_entries b)
          (setBinder (Some new_binder) b) = Inr b1
     \<and> \<not> MapBinding_canBind b1
     \<and> pBinder b1 = Some \<lparr>received = [(0, 7, PD_IN), (0, 5, PD_IN)], resets = 0\<rparr>
     \<and> MapBinding_canBind (MapBinding_reset two_entries b1)
     \<and> call_n (MapBinding_bind True two_entries 0)
          (MapBinding_numOfRowsHandled two_entries (MapBinding_reset two_entries b1))
          (MapBinding_reset two_entries b1) = Inr b2
     \<and> \<not> MapBinding_canBind b2
     \<and> pBinder b2 = Some \<lparr>received = [(0, 7, PD_IN), (0, 5, PD_IN), (0, 7, PD_IN), (0, 5, PD_IN)],
                              resets = 0\<rparr>)
   \<and> (\<exists>b b1 b2. BoolVectorBinding_ctor two_flags 0 ''p'' PD_IN = Inr b
     \<and> call_n (BoolVectorBinding_bind True 0) (BoolVectorBinding_numOfRowsHandled two_flags b)
          (setBinder (Some new_binder) b) = Inr b1
     \<and> \<not> BoolVectorBinding_canBind b1
     \<and> pBinder b1 = Some \<lparr>received = [(0, True, PD_IN), (0, False, PD_IN)], resets = 0\<rparr>
     \<and> BoolVectorBinding_canBind (BoolVectorBinding_reset b1)
     \<and> call_n (BoolVectorBinding_bind True 0)
          (BoolVectorBinding_numOfRowsHandled two_flags (BoolVectorBinding_reset b1))
          (BoolVectorBinding_reset b1) = Inr b2
     \<and> \<not> BoolVectorBinding_canBind b2
     \<and> pBinder b2 = Some \<lparr>received = [(0, True, PD_IN), (0, False, PD_IN),
                                        (0, True, PD_IN), (0, False, PD_IN)], resets = 0\<rparr>)"
proof -
  have h1: "three_rows 0 \<noteq> []" by (simp add: three_rows_def)
  have h2: "two_entries 0 \<noteq> []" by (simp add: two_entries_def)
  have h3: "two_flags 0 \<noteq> []" by (simp add: two_flags_def)
  note inst = reset_restarts_nonempty_collection [where h = three_rows and a = 0
      and hm = two_entries and am = 0 and hb = two_flags and ab = 0
      and nm = "''p''" and dir = PD_IN and copy = False and dbg = True and pos = 0
      and bd = new_binder and md = new_binder and dd = new_binder, OF h1 h2 h3]
  have c: "map (\<lambda>x. (0::nat, x, PD_IN)) (three_rows 0) = [(0, 10, PD_IN), (0, 20, PD_IN), (0, 30, PD_IN)]"
    "map (\<lambda>e. (0::nat, snd e, PD_IN)) (two_entries 0) = [(0, 7, PD_IN), (0, 5, PD_IN)]"
    "map (\<lambda>x. (0::nat, x, PD_IN)) (two_flags 0) = [(0, True, PD_IN), (0, False, PD_IN)]"
    by (simp_all add: three_rows_def two_entries_def two_flags_def)
  show ?thesis
    using inst h1 h2 h3 by (simp add: c new_binder_def)
qed

text \<open>
  Claim C3 as stated fails for a Binding over an empty collection, which direction OUT
  allows: it has no rows, \<open>canBind()\<close> is false, and it is still false after
  \<open>reset()\<close>.
\<close>

theorem reset_of_empty_collection_cannot_bind:
  "VectorBinding_ctor no_rows 0 ''p'' PD_OUT False =
     Inr \<lparr>name = ''p'', direction = PD_OUT, pBinder = None, vval = Ref 0, vbegin = 0, vend = 0\<rparr>
   \<and> VectorBinding_numOfRowsHandled no_rows
       \<lparr>name = ''p'', direction = PD_OUT, pBinder = None, vval = Ref 0, vbegin = 0, vend = 0\<rparr> = 0
   \<and> \<not> VectorBinding_canBind
       \<lparr>name = ''p'', direction = PD_OUT, pBinder = None, vval = Ref 0, vbegin = 0, vend = 0\<rparr>
   \<and> \<not> VectorBinding_canBind (VectorBinding_reset no_rows
       \<lparr>name = ''p'', direction = PD_OUT, pBinder = None, vval = Ref 0, vbegin = 0, vend = 0\<rparr>)"
  by (simp add: VectorBinding_ctor_def VectorBinding_numOfRowsHandled_def make_storage_def
      VectorBinding_canBind_def VectorBinding_reset_def no_rows_def)

subsection \<open>Maps\<close>

text \<open>
  Claim C5. For every map or multimap Binding, \<open>numOfRowsHandled()\<close> bind calls (and
  every shorter prefix of \<open>k\<close> calls) deliver to the Binder the mapped value, the second
  component, of each entry in iteration order and nothing else: the Binder is one for
  values of the mapped type, so no key can reach it. \<open>numOfColumnsHandled()\<close> is
  \<open>TypeHandler<V>::size()\<close>, the size for the mapped type.
\<close>

theorem map_binds_mapped_values_only:
  fixes h :: "('k \<times> 'v) list heap"
  assumes "MapBinding_ctor h a nm dir copy = Inr b" and "k \<le> length (h a)"
  shows "MapBinding_numOfRowsHandled h b = length (h a)
    \<and> MapBinding_numOfColumnsHandled TypeHandler_V_size b = TypeHandler_V_size
    \<and> (\<exists>b'. call_n (MapBinding_bind dbg h pos) k (setBinder (Some bd) b) = Inr b'
         \<and> pBinder b' = Some (bd\<lparr>received := received bd @
               map (\<lambda>e. (pos, snd e, dir)) (take k (h a))\<rparr>))"
proof -
  have ok: "dir \<noteq> PD_IN \<or> h a \<noteq> []"
    using assms(1)
    by (auto simp: MapBinding_ctor_def MapBinding_numOfRowsHandled_def deref_make_storage)
  from MapBinding_drain [of dir h a k nm copy dbg pos bd] ok assms
  show ?thesis
    by (auto simp: MapBinding_numOfColumnsHandled_def)
qed

theorem map_binds_mapped_values_only_witness:
  "MapBinding_ctor two_entries 0 ''p'' PD_IN False =
      Inr \<lparr>name = ''p'', direction = PD_IN, pBinder = None,
             mval = Ref 0, mbegin = 0, mend = 2\<rparr>
    \<and> 2 \<le> length (two_entries 0)
    \<and> (\<exists>b'. call_n (MapBinding_bind True two_entries 0) 2
          (setBinder (Some new_binder) \<lparr>name = ''p'', direction = PD_IN, pBinder = None,
             mval = Ref 0, mbegin = 0, mend = 2\<rparr>) = Inr b'
         \<and> pBinder b' = Some \<lparr>received = [(0, 7, PD_IN), (0, 5, PD_IN)], resets = 0\<rparr>)"
proof -
  have h1: "MapBinding_ctor two_entries 0 ''p'' PD_IN False =
      Inr \<lparr>name = ''p'', direction = PD_IN, pBinder = None,
             mval = Ref 0, mbegin = 0, mend = 2\<rparr>"
    by (simp add: MapBinding_ctor_def MapBinding_numOfRowsHandled_def make_storage_def
        two_entries_def)
  have h2: "2 \<le> length (two_entries 0)" by (simp add: two_entries_def)
  note inst = map_binds_mapped_values_only [where h = two_entries and a = 0 and k = 2
      and dbg = True and pos = 0 and bd = new_binder and TypeHandler_V_size = 1, OF h1 h2]
  have c: "take 2 (two_entries 0) = [(''k1'', 7), (''k2'', 5)]"
    by (simp add: two_entries_def)
  show ?thesis
    using inst h1 h2 by (simp add: c new_binder_def)
qed

subsection \<open>One value\<close>




subsection \<open>Character pointers\<close>

text \<open>
  Claim C6. Constructing a \<open>Binding<const char*>\<close> from a null pointer raises
  \<open>NullPointerException\<close> whatever the copy flag; from a pointer to characters it yields,
  whatever the copy flag, a Binding whose \<open>_val\<close> holds the characters themselves, and
  \<open>bind\<close> delivers that string. No member function but the constructor takes the
  caller's memory, so the pointer cannot be read after construction.
\<close>

theorem CharPtr_null_rejected_else_copied:
  "CharPtrBinding_ctor mem None nm dir copy = Inl NullPointerException
   \<and> CharPtrBinding_ctor mem (Some a) nm dir copy =
       Inr \<lparr>name = nm, direction = dir, pBinder = None, cval = mem a, cbound = False\<rparr>
   \<and> CharPtrBinding_bind dbg pos (setBinder (Some bd)
         \<lparr>name = nm, direction = dir, pBinder = None, cval = mem a, cbound = False\<rparr>) =
       Inr \<lparr>name = nm, direction = dir,
            pBinder = Some (bd\<lparr>received := received bd @ [(pos, mem a, dir)]\<rparr>),
            cval = mem a, cbound = True\<rparr>"
  by (simp add: CharPtrBinding_ctor_def CharPtrBinding_bind_def setBinder_def
      poco_assert_dbg_fails_def TypeHandler_bind_def AbstractBinder_bind_def)

theorem CharPtr_null_rejected_else_copied_witness:
  "CharPtrBinding_ctor some_chars None ''p'' PD_IN False = Inl NullPointerException
   \<and> CharPtrBinding_ctor some_chars None ''p'' PD_IN True = Inl NullPointerException
   \<and> CharPtrBinding_ctor some_chars (Some 0) ''p'' PD_IN False =
       Inr \<lparr>name = ''p'', direction = PD_IN, pBinder = None, cval = ''abc'', cbound = False\<rparr>
   \<and> CharPtrBinding_bind True 0 (setBinder (Some new_binder)
         \<lparr>name = ''p'', direction = PD_IN, pBinder = None, cval = ''abc'', cbound = False\<rparr>) =
       Inr \<lparr>name = ''p'', direction = PD_IN,
            pBinder = Some \<lparr>received = [(0, ''abc'', PD_IN)], resets = 0\<rparr>,
            cval = ''abc'', cbound = True\<rparr>"
  using CharPtr_null_rejected_else_copied [of some_chars "''p''" PD_IN False 0 True 0 new_binder]
    CharPtr_null_rejected_else_copied [of some_chars "''p''" PD_IN True 0 True 0 new_binder]
  by (simp add: some_chars_def new_binder_def)

subsection \<open>Vectors of bool\<close>

text \<open>
  Claim C7. Constructing a \<open>Binding<std::vector<bool>>\<close> with a direction other than
  IN raises a \<open>BindingException\<close>, whatever the vector; with IN and a non-empty vector
  it succeeds.
\<close>

theorem BoolVector_only_IN:
  assumes "dir \<noteq> PD_IN" and "hb ab \<noteq> []"
  shows "BoolVectorBinding_ctor h a nm dir =
       Inl (BindingException ''Only IN direction is legal for std:vector<bool> binding.'')
   \<and> BoolVectorBinding_ctor hb ab nm PD_IN =
       Inr \<lparr>name = nm, direction = PD_IN, pBinder = None,
            bval = ab, deq = hb ab, bbegin = 0, bend = length (hb ab)\<rparr>"
  using assms
  by (simp add: BoolVectorBinding_ctor_def BoolVectorBinding_numOfRowsHandled_def)

theorem BoolVector_only_IN_witness:
  "PD_OUT \<noteq> PD_IN \<and> PD_IN_OUT \<noteq> PD_IN \<and> two_flags 0 \<noteq> []
   \<and> BoolVectorBinding_ctor two_flags 0 ''p'' PD_OUT =
       Inl (BindingException ''Only IN direction is legal for std:vector<bool> binding.'')
   \<and> BoolVectorBinding_ctor two_flags 0 ''p'' PD_IN_OUT =
       Inl (BindingException ''Only IN direction is legal for std:vector<bool> binding.'')
   \<and> BoolVectorBinding_ctor two_flags 0 ''p'' PD_IN =
       Inr \<lparr>name = ''p'', direction = PD_IN, pBinder = None,
            bval = 0, deq = [True, False], bbegin = 0, bend = 2\<rparr>"
proof -
  have h1: "PD_OUT \<noteq> PD_IN" and h2: "PD_IN_OUT \<noteq> PD_IN" by simp_all
  have h3: "two_flags 0 \<noteq> []" by (simp add: two_flags_def)
  note i1 = BoolVector_only_IN [where dir = PD_OUT and hb = two_flags and ab = 0
      and h = two_flags and a = 0 and nm = "''p''", OF h1 h3]
  note i2 = BoolVector_only_IN [where dir = PD_IN_OUT and hb = two_flags and ab = 0
      and h = two_flags and a = 0 and nm = "''p''", OF h2 h3]
  have c: "two_flags 0 = [True, False]" by (simp add: two_flags_def)
  show ?thesis
    using i1 i2 h3 by (simp add: c)
qed

text \<open>
  A consumer's calls interleaved with the caller's assignments to the source vector end in
  the same Binding, or the same exception, as the consumer's calls alone.
\<close>

lemma BoolVector_run_ignores_caller:
  "map_sum id snd (BoolVector_run dbg es (h, b)) =
   map_sum id snd (BoolVector_run dbg (filter is_Consumer es) (h', b))"
proof (induction es arbitrary: h h' b)
  case Nil
  show ?case by simp
next
  case (Cons e es)
  show ?case
  proof (cases e)
    case (Consumer_bind pos)
    show ?thesis
    proof (cases "BoolVectorBinding_bind dbg pos b")
      case (Inl x)
      with Consumer_bind show ?thesis by simp
    next
      case (Inr b')
      with Consumer_bind Cons.IH [of h b' h'] show ?thesis by simp
    qed
  next
    case Consumer_reset
    with Cons.IH [of h "BoolVectorBinding_reset b" h'] show ?thesis by simp
  next
    case (Caller_assigns xs)
    have l: "BoolVector_run dbg (e # es) (h, b) = BoolVector_run dbg es (h(bval b := xs), b)"
      using Caller_assigns by simp
    have r: "filter is_Consumer (e # es) = filter is_Consumer es"
      using Caller_assigns by simp
    show ?thesis
      unfolding l r by (rule Cons.IH)
  qed
qed

text \<open>
  Claim C8: a Binding over a vector of bool reads the caller's vector at construction
  only, so that no later change of the vector changes what bind calls deliver or any other
  observable of the Binding. The lemma above is the part about bind, \<open>reset\<close> and the
  cursor, which holds. \<open>numOfRowsHandled()\<close> breaks the claim: it returns
  \<open>_val.size()\<close>, the size of the caller's vector at the time of the call, while the
  rows are those of \<open>_deq\<close>. Evaluated here: a Binding is constructed over two flags
  and reports 2 rows; the caller then assigns three flags to the vector; the Binding, which
  is unchanged and holds two rows, reports 3 rows; and the 3 bind calls that count asks
  for end, after two rows, in the failed assertion of \<open>canBind()\<close> in a debug build and
  in a read at the end iterator otherwise.
\<close>

theorem BoolVector_rows_follow_the_source:
  "BoolVectorBinding_ctor two_flags 0 ''p'' PD_IN =
     Inr \<lparr>name = ''p'', direction = PD_IN, pBinder = None,
          bval = 0, deq = [True, False], bbegin = 0, bend = 2\<rparr>
   \<and> BoolVectorBinding_numOfRowsHandled two_flags
        \<lparr>name = ''p'', direction = PD_IN, pBinder = None,
          bval = 0, deq = [True, False], bbegin = 0, bend = 2\<rparr> = 2
   \<and> BoolVector_run True [Caller_assigns [True, False, True]]
        (two_flags, \<lparr>name = ''p'', direction = PD_IN, pBinder = None,
          bval = 0, deq = [True, False], bbegin = 0, bend = 2\<rparr>) =
      Inr (two_flags(0 := [True, False, True]),
           \<lparr>name = ''p'', direction = PD_IN, pBinder = None,
          bval = 0, deq = [True, False], bbegin = 0, bend = 2\<rparr>)
   \<and> BoolVectorBinding_numOfRowsHandled (two_flags(0 := [True, False, True]))
        \<lparr>name = ''p'', direction = PD_IN, pBinder = None,
          bval = 0, deq = [True, False], bbegin = 0, bend = 2\<rparr> = 3
   \<and> BoolVector_run True
        [Caller_assigns [True, False, True], Consumer_bind 0, Consumer_bind 0]
        (two_flags, \<lparr>name = ''p'', direction = PD_IN, pBinder = Some new_binder,
          bval = 0, deq = [True, False], bbegin = 0, bend = 2\<rparr>) =
      Inr (two_flags(0 := [True, False, True]),
           \<lparr>name = ''p'', direction = PD_IN,
          pBinder = Some \<lparr>received = [(0, True, PD_IN), (0, False, PD_IN)], resets = 0\<rparr>,
          bval = 0, deq = [True, False], bbegin = 2, bend = 2\<rparr>)
   \<and> BoolVector_run True
        [Caller_assigns [True, False, True], Consumer_bind 0, Consumer_bind 0, Consumer_bind 0]
        (two_flags, \<lparr>name = ''p'', direction = PD_IN, pBinder = Some new_binder,
          bval = 0, deq = [True, False], bbegin = 0, bend = 2\<rparr>) =
      Inl AssertionViolationException
   \<and> BoolVector_run False
        [Caller_assigns [True, False, True], Consumer_bind 0, Consumer_bind 0, Consumer_bind 0]
        (two_flags, \<lparr>name = ''p'', direction = PD_IN, pBinder = Some new_binder,
          bval = 0, deq = [True, False], bbegin = 0, bend = 2\<rparr>) =
      Inl UndefinedBehaviour"
  by (simp add: BoolVectorBinding_ctor_def BoolVectorBinding_numOfRowsHandled_def
      BoolVectorBinding_bind_def BoolVectorBinding_canBind_def poco_assert_dbg_fails_def
      TypeHandler_bind_def AbstractBinder_bind_def two_flags_def new_binder_def)

subsection \<open>\<open>reset\<close> and the Binder\<close>

text \<open>
  Claim C10. \<open>reset()\<close> of a container Binding (vector, list, deque, set, multiset; map,
  multimap; vector of bool) leaves the Binder pointer and the Binder it points to as they
  are, and the stored collection too: it only sets the two iterators. \<open>reset()\<close> of a
  scalar or \<open>const char*\<close> Binding with a Binder attached clears \<open>_bound\<close> and calls the
  Binder's \<open>reset()\<close> (one more reset counted, the received values kept); with no Binder
  attached it raises \<open>NullPointerException\<close>.
\<close>

theorem container_reset_keeps_Binder_scalar_reset_forwards:
  fixes v :: "'a VectorBinding" and m :: "('k, 'w) MapBinding" and s :: "'v Binding"
    and s0 :: "'u Binding"
  assumes "pBinder s = Some bd" and "pBinder c = Some cd"
    and "pBinder s0 = None" and "pBinder c0 = None"
  shows "pBinder (VectorBinding_reset h v) = pBinder v
    \<and> vval (VectorBinding_reset h v) = vval v
    \<and> pBinder (MapBinding_reset hm m) = pBinder m
    \<and> mval (MapBinding_reset hm m) = mval m
    \<and> pBinder (BoolVectorBinding_reset bv) = pBinder bv
    \<and> deq (BoolVectorBinding_reset bv) = deq bv
    \<and> Binding_reset s = (None, s\<lparr>pBinder := Some (bd\<lparr>resets := Suc (resets bd)\<rparr>), bound := False\<rparr>)
    \<and> CharPtrBinding_reset c = (None, c\<lparr>pBinder := Some (cd\<lparr>resets := Suc (resets cd)\<rparr>), cbound := False\<rparr>)
    \<and> fst (Binding_reset s0) = Some NullPointerException
    \<and> pBinder (snd (Binding_reset s0)) = None
    \<and> fst (CharPtrBinding_reset c0) = Some NullPointerException
    \<and> pBinder (snd (CharPtrBinding_reset c0)) = None"
  using assms
  by (simp add: VectorBinding_reset_def MapBinding_reset_def BoolVectorBinding_reset_def
      Binding_reset_def CharPtrBinding_reset_def AbstractBinder_reset_def)

theorem container_reset_keeps_Binder_scalar_reset_forwards_witness:
  "pBinder (setBinder (Some new_binder) (Binding_ctor one_int 0 ''p'' PD_IN False)) = Some new_binder
   \<and> pBinder \<lparr>name = ''p'', direction = PD_IN, pBinder = Some new_binder,
               cval = ''abc'', cbound = True\<rparr> = Some new_binder
   \<and> pBinder (Binding_ctor one_int 0 ''p'' PD_IN False) = None
   \<and> pBinder \<lparr>name = ''p'', direction = PD_IN, pBinder = None,
               cval = ''abc'', cbound = True\<rparr> = None
   \<and> pBinder (VectorBinding_reset three_rows
        \<lparr>name = ''p'', direction = PD_IN,
         pBinder = Some \<lparr>received = [(0, 10, PD_IN)], resets = 0\<rparr>,
         vval = Ref 0, vbegin = 1, vend = 3\<rparr>) = Some \<lparr>received = [(0, 10, PD_IN)], resets = 0\<rparr>
   \<and> pBinder (MapBinding_reset two_entries
        \<lparr>name = ''p'', direction = PD_IN,
         pBinder = Some \<lparr>received = [(0, 7, PD_IN)], resets = 0\<rparr>,
         mval = Ref 0, mbegin = 1, mend = 2\<rparr>) = Some \<lparr>received = [(0, 7, PD_IN)], resets = 0\<rparr>
   \<and> pBinder (BoolVectorBinding_reset
        \<lparr>name = ''p'', direction = PD_IN,
         pBinder = Some \<lparr>received = [(0, True, PD_IN)], resets = 0\<rparr>,
         bval = 0, deq = [True, False], bbegin = 1, bend = 2\<rparr>) =
       Some \<lparr>received = [(0, True, PD_IN)], resets = 0\<rparr>
   \<and> Binding_reset (setBinder (Some new_binder) (Binding_ctor one_int 0 ''p'' PD_IN False)) =
       (None, \<lparr>name = ''p'', direction = PD_IN,
               pBinder = Some \<lparr>received = [], resets = 1\<rparr>, val = Ref 0, bound = False\<rparr>)
   \<and> CharPtrBinding_reset \<lparr>name = ''p'', direction = PD_IN, pBinder = Some new_binder,
               cval = ''abc'', cbound = True\<rparr> =
       (None, \<lparr>name = ''p'', direction = PD_IN,
               pBinder = Some \<lparr>received = [], resets = 1\<rparr>, cval = ''abc'', cbound = False\<rparr>)
   \<and> fst (Binding_reset (Binding_ctor one_int 0 ''p'' PD_IN False)) = Some NullPointerException
   \<and> fst (CharPtrBinding_reset \<lparr>name = ''p'', direction = PD_IN, pBinder = None,
               cval = ''abc'', cbound = True\<rparr>) = Some NullPointerException"
proof -
  let ?s = "setBinder (Some new_binder) (Binding_ctor one_int 0 ''p'' PD_IN False)"
  let ?c = "\<lparr>name = ''p'', direction = PD_IN, pBinder = Some new_binder,
               cval = ''abc'', cbound = True\<rparr>"
  let ?t = "Binding_ctor one_int 0 ''p'' PD_IN False"
  let ?d = "\<lparr>name = ''p'', direction = PD_IN, pBinder = None,
               cval = ''abc'', cbound = True\<rparr>"
  have h1: "pBinder ?s = Some new_binder" by (simp add: setBinder_def)
  have h2: "pBinder ?c = Some new_binder" by simp
  have h3: "pBinder ?t = None" by (simp add: Binding_ctor_def)
  have h4: "pBinder ?d = None" by simp
  note inst = container_reset_keeps_Binder_scalar_reset_forwards [where s = ?s and c = ?c
      and s0 = ?t and c0 = ?d and bd = new_binder and cd = new_binder
      and h = three_rows and hm = two_entries
      and v = "\<lparr>name = ''p'', direction = PD_IN,
         pBinder = Some \<lparr>received = [(0, 10, PD_IN)], resets = 0\<rparr>,
         vval = Ref 0, vbegin = 1, vend = 3\<rparr>"
      and m = "\<lparr>name = ''p'', direction = PD_IN,
         pBinder = Some \<lparr>received = [(0, 7, PD_IN)], resets = 0\<rparr>,
         mval = Ref 0, mbegin = 1, mend = 2\<rparr>"
      and bv = "\<lparr>name = ''p'', direction = PD_IN,
         pBinder = Some \<lparr>received = [(0, True, PD_IN)], resets = 0\<rparr>,
         bval = 0, deq = [True, False], bbegin = 1, bend = 2\<rparr>", OF h1 h2 h3 h4]
  show ?thesis
    using inst h1 h2 h3 h4
    by (simp add: new_binder_def setBinder_def Binding_ctor_def make_storage_def)
qed

end
